theory Spec2Isabelle
  imports Complex_Main "HOL-Library.Sublist"
begin

section \<open>Exceptions\<close>

text \<open>
  Every exception that can travel through \<open>launch\<close> is a value. \<open>LaunchException\<close> is
  built in the source either from a formatted message (the channel check of the builders)
  or from a caught exception (\<open>raise LaunchException(ex)\<close>).
\<close>

datatype exn =
    ParseException string
  | IndexError
  | ValueError
  | AttributeError
  | IOError
  | LaunchException payload
and payload =
    Message string
  | Cause exn



section \<open>The numeric arrays of the source\<close>

text \<open>
  An array is its shape and its elements in row-major order. The source uses four
  operations of the array library: \<open>data.shape\<close>, \<open>data.T\<close>, basic indexing
  \<open>data[index]\<close> (integers, slices, ellipsis and \<open>newaxis\<close>) and the product of an
  integer range with a scalar.
\<close>

record ndarray =
  shape :: "nat list"
  elems :: "real list"

definition wf_ndarray :: "ndarray \<Rightarrow> bool" where
  "wf_ndarray a \<longleftrightarrow> length (elems a) = prod_list (shape a)"

definition flat_index :: "nat list \<Rightarrow> nat list \<Rightarrow> nat" where
  "flat_index shp idx = foldl (\<lambda>acc (n, i). acc * n + i) 0 (zip shp idx)"

definition all_indices :: "nat list \<Rightarrow> nat list list" where
  "all_indices shp = product_lists (map (\<lambda>n. [0..<n]) shp)"

text \<open>\<open>data.T\<close>: the axes in reverse order.\<close>

definition ndarray_T :: "ndarray \<Rightarrow> ndarray" where
  "ndarray_T a =
     \<lparr>shape = rev (shape a),
      elems = map (\<lambda>idx. elems a ! flat_index (shape a) (rev idx)) (all_indices (rev (shape a)))\<rparr>"

text \<open>\<open>shape[i]\<close> on the shape tuple: out of range raises \<open>IndexError\<close>.\<close>

definition tuple_item :: "nat list \<Rightarrow> nat \<Rightarrow> exn + nat" where
  "tuple_item t i = (if i < length t then Inr (t ! i) else Inl IndexError)"

datatype index_item =
    Index int
  | Slice "int option" "int option" "int option"
  | Ellipsis
  | NewAxis

text \<open>
  The indices a slice \<open>start:stop:step\<close> selects on an axis of length \<open>n\<close>: negative
  bounds count from the end, bounds are clamped to the axis, a zero step is a \<open>ValueError\<close>.
\<close>

definition slice_indices :: "int option \<Rightarrow> int option \<Rightarrow> int option \<Rightarrow> nat \<Rightarrow> exn + nat list" where
  "slice_indices start stop step n =
     (let st = (case step of None \<Rightarrow> 1 | Some s \<Rightarrow> s) in
      if st = 0 then Inl ValueError
      else
        let len = int n;
            lower = (if st < 0 then - 1 else 0);
            upper = (if st < 0 then len - 1 else len);
            adjust = (\<lambda>v. if v < 0 then max (v + len) lower else min v upper);
            b = (case start of None \<Rightarrow> (if st < 0 then upper else lower) | Some v \<Rightarrow> adjust v);
            e = (case stop of None \<Rightarrow> (if st < 0 then lower else upper) | Some v \<Rightarrow> adjust v);
            cnt = (if 0 < st then (if b < e then (e - b - 1) div st + 1 else 0)
                   else (if e < b then (b - e - 1) div (- st) + 1 else 0))
        in Inr (map (\<lambda>k. nat (b + int k * st)) [0..<nat cnt]))"

fun consumes_axis :: "index_item \<Rightarrow> bool" where
  "consumes_axis (Index _) = True"
| "consumes_axis (Slice _ _ _) = True"
| "consumes_axis Ellipsis = False"
| "consumes_axis NewAxis = False"

text \<open>
  An index with more integer and slice items than the array has axes, or with two
  ellipses, is an \<open>IndexError\<close>. The ellipsis, or else the end of the index, stands for
  full slices over the axes not named.
\<close>

definition expand_ellipsis :: "index_item list \<Rightarrow> nat \<Rightarrow> exn + index_item list" where
  "expand_ellipsis items nd =
     (let k = length (filter consumes_axis items);
          ne = length (filter (\<lambda>i. i = Ellipsis) items)
      in if 1 < ne then Inl IndexError
         else if nd < k then Inl IndexError
         else
           let fill = replicate (nd - k) (Slice None None None)
           in if ne = 0 then Inr (items @ fill)
              else Inr (concat (map (\<lambda>i. if i = Ellipsis then fill else [i]) items)))"

datatype selector = Pick nat | Keep "nat list" | Fresh

fun select_axes :: "index_item list \<Rightarrow> nat list \<Rightarrow> exn + selector list" where
  "select_axes [] shp = Inr []"
| "select_axes (NewAxis # items) shp =
     (case select_axes items shp of Inl e \<Rightarrow> Inl e | Inr ss \<Rightarrow> Inr (Fresh # ss))"
| "select_axes (Index i # items) (n # shp) =
     (if - int n \<le> i \<and> i < int n
      then (case select_axes items shp of
              Inl e \<Rightarrow> Inl e
            | Inr ss \<Rightarrow> Inr (Pick (nat (if i < 0 then i + int n else i)) # ss))
      else Inl IndexError)"
| "select_axes (Slice a b c # items) (n # shp) =
     (case slice_indices a b c n of
        Inl e \<Rightarrow> Inl e
      | Inr ks \<Rightarrow>
          (case select_axes items shp of Inl e \<Rightarrow> Inl e | Inr ss \<Rightarrow> Inr (Keep ks # ss)))"
| "select_axes _ _ = Inl IndexError"

fun selector_shape :: "selector \<Rightarrow> nat list" where
  "selector_shape (Pick _) = []"
| "selector_shape (Keep ks) = [length ks]"
| "selector_shape Fresh = [1]"

fun selector_source :: "selector \<Rightarrow> nat list list" where
  "selector_source (Pick i) = [[i]]"
| "selector_source (Keep ks) = [ks]"
| "selector_source Fresh = []"

text \<open>\<open>data[index]\<close>, basic indexing.\<close>

definition getitem :: "ndarray \<Rightarrow> index_item list \<Rightarrow> exn + ndarray" where
  "getitem a items =
     (case expand_ellipsis items (length (shape a)) of
        Inl e \<Rightarrow> Inl e
      | Inr its \<Rightarrow>
          (case select_axes its (shape a) of
             Inl e \<Rightarrow> Inl e
           | Inr sels \<Rightarrow>
               Inr \<lparr>shape = concat (map selector_shape sels),
                    elems = map (\<lambda>idx. elems a ! flat_index (shape a) idx)
                                (product_lists (concat (map selector_source sels)))\<rparr>))"

text \<open>\<open>numpy.r_[:n] * p\<close>: the integers below \<open>n\<close>, each multiplied by \<open>p\<close>.\<close>

definition r_times :: "nat \<Rightarrow> real \<Rightarrow> real list" where
  "r_times n p = map (\<lambda>i. real i * p) [0..<n]"

section \<open>The slice expression parser\<close>

definition split_on :: "char \<Rightarrow> string \<Rightarrow> string list" where
  "split_on c s =
     foldr (\<lambda>x acc. if x = c then [] # acc
                     else (case acc of [] \<Rightarrow> [[x]] | r # rs \<Rightarrow> (x # r) # rs)) s [[]]"

definition is_digit :: "char \<Rightarrow> bool" where
  "is_digit c \<longleftrightarrow> 48 \<le> (of_char c :: nat) \<and> (of_char c :: nat) \<le> 57"

definition parse_nat :: "string \<Rightarrow> nat option" where
  "parse_nat s =
     (if s \<noteq> [] \<and> list_all is_digit s
      then Some (foldl (\<lambda>acc c. 10 * acc + (of_char c - 48)) 0 s)
      else None)"

definition parse_int :: "string \<Rightarrow> int option" where
  "parse_int s =
     (case s of
        [] \<Rightarrow> None
      | c # cs \<Rightarrow>
          if c = CHR ''-'' then map_option (\<lambda>n. - int n) (parse_nat cs)
          else if c = CHR ''+'' then map_option int (parse_nat cs)
          else map_option int (parse_nat s))"

definition parse_bound :: "string \<Rightarrow> (int option) option" where
  "parse_bound s = (if s = [] then Some None else map_option Some (parse_int s))"

definition parse_component :: "string \<Rightarrow> index_item option" where
  "parse_component d =
     (if d = ''...'' then Some Ellipsis
      else
        (case split_on CHR '':'' d of
           [i] \<Rightarrow> map_option Index (parse_int i)
         | [a, b] \<Rightarrow>
             (case (parse_bound a, parse_bound b) of
                (Some x, Some y) \<Rightarrow> Some (Slice x y None)
              | _ \<Rightarrow> None)
         | [a, b, c] \<Rightarrow>
             (case (parse_bound a, parse_bound b, parse_bound c) of
                (Some x, Some y, Some z) \<Rightarrow> Some (Slice x y z)
              | _ \<Rightarrow> None)
         | _ \<Rightarrow> None))"

text \<open>
  Modelled from the spec: \<open>parse_slice\<close> of \<open>tvb.core.adapters.arguments_serialisation\<close>
  is missing from the sources. The spec gives its contract: the input is a slice expression
  in the array library's syntax, as \<open>10:20, :\<close>; the output is a multi-dimensional index;
  single indices, ranges with an optional step, the ellipsis and comma-separated
  components are supported; malformed syntax fails with a parse error.
\<close>

definition parse_slice :: "string \<Rightarrow> exn + index_item list" where
  "parse_slice slice_string =
     (let ds = map parse_component (split_on CHR '','' (filter (\<lambda>c. c \<noteq> CHR '' '') slice_string))
      in if list_all (\<lambda>d. d \<noteq> None) ds then Inr (map the ds)
         else Inl (ParseException slice_string))"

text \<open>\<open>%d\<close> of a count: its decimal digits.\<close>

fun string_of_nat :: "nat \<Rightarrow> string" where
  "string_of_nat n =
     (if n < 10 then [char_of (48 + n)]
      else string_of_nat (n div 10) @ [char_of (48 + n mod 10)])"

declare string_of_nat.simps [simp del]

section \<open>The platform's objects\<close>

text \<open>
  Identifiers are opaque. The topology passed as \<open>tstype_parameters\<close> is a connectivity
  (with its \<open>number_of_regions\<close>), a sensor array (with its \<open>number_of_sensors\<close>), or
  absent (\<open>None\<close>, the default of the argument).
\<close>

type_synonym gid = nat

datatype topology =
    Connectivity gid nat
  | Sensors gid nat

datatype tstype = TS_REGION | TS_EEG

text \<open>The in-memory time series (\<open>TimeSeriesRegion()\<close>, \<open>TimeSeriesEEG()\<close>).\<close>

record time_series =
  ts_title :: string
  ts_start_time :: real
  ts_sample_period :: real
  ts_sample_period_unit :: string
  ts_sample_rate :: "real option"
  ts_labels_ordering :: "string list"
  ts_labels_dimensions :: "(string \<times> string list) list"

text \<open>The index record (\<open>TimeSeriesRegionIndex\<close>, \<open>TimeSeriesEEGIndex\<close>).\<close>

record ts_index =
  idx_class :: tstype
  idx_gid :: gid
  connectivity_gid :: "gid option"
  has_surface_mapping :: "bool option"
  sensors_gid :: "gid option"
  idx_title :: "string option"
  time_series_type :: "string option"
  idx_sample_period_unit :: "string option"
  idx_sample_period :: "real option"
  idx_sample_rate :: "real option"
  idx_labels_dimensions :: "string option"
  idx_labels_ordering :: "string option"
  data_ndim :: "nat option"
  data_length_1d :: "nat option"
  data_length_2d :: "nat option"
  data_length_3d :: "nat option"
  data_length_4d :: "nat option"

definition new_index :: "tstype \<Rightarrow> gid \<Rightarrow> ts_index" where
  "new_index c g =
     \<lparr>idx_class = c, idx_gid = g, connectivity_gid = None, has_surface_mapping = None,
      sensors_gid = None, idx_title = None, time_series_type = None,
      idx_sample_period_unit = None, idx_sample_period = None, idx_sample_rate = None,
      idx_labels_dimensions = None, idx_labels_ordering = None, data_ndim = None,
      data_length_1d = None, data_length_2d = None, data_length_3d = None,
      data_length_4d = None\<rparr>"

text \<open>
  Modelled from the spec: the storage containers \<open>TimeSeriesRegionH5\<close> and
  \<open>TimeSeriesEEGH5\<close> are missing from the sources. The spec gives the layout: the fields
  \<open>gid\<close>, the \<open>connectivity\<close> or \<open>sensors\<close> reference, \<open>data\<close>, \<open>time\<close> (aligned to
  axis 0 of \<open>data\<close>) and the scalar metadata; a builder opens a fresh container keyed by
  a newly generated identifier, and the shape read back is what the storage holds.
\<close>

record h5_file =
  h5_class :: tstype
  h5_closed :: bool
  h5_gid :: "gid option"
  h5_connectivity :: "gid option"
  h5_sensors :: "gid option"
  h5_data :: "ndarray option"
  h5_time :: "real list option"
  h5_nr_dimensions :: "nat option"
  h5_sample_period :: "real option"
  h5_sample_period_unit :: "string option"
  h5_sample_rate :: "real option"
  h5_start_time :: "real option"
  h5_labels_ordering :: "string list option"
  h5_labels_dimensions :: "(string \<times> string list) list option"
  h5_title :: "string option"

definition new_h5 :: "tstype \<Rightarrow> h5_file" where
  "new_h5 c =
     \<lparr>h5_class = c, h5_closed = False, h5_gid = None, h5_connectivity = None,
      h5_sensors = None, h5_data = None, h5_time = None, h5_nr_dimensions = None,
      h5_sample_period = None, h5_sample_period_unit = None, h5_sample_rate = None,
      h5_start_time = None, h5_labels_ordering = None, h5_labels_dimensions = None,
      h5_title = None\<rparr>"

text \<open>
  What a call can observe and change: the storage containers by key, the importer's log,
  and the supply of fresh identifiers.
\<close>

record world =
  files :: "gid \<rightharpoonup> h5_file"
  log :: "exn list"
  next_gid :: gid

definition fresh_gid :: "world \<Rightarrow> gid \<times> world" where
  "fresh_gid w = (next_gid w, w\<lparr>next_gid := Suc (next_gid w)\<rparr>)"

definition h5_create :: "gid \<Rightarrow> tstype \<Rightarrow> world \<Rightarrow> world" where
  "h5_create p c w = w\<lparr>files := (files w)(p \<mapsto> new_h5 c)\<rparr>"

definition h5_modify :: "gid \<Rightarrow> (h5_file \<Rightarrow> h5_file) \<Rightarrow> world \<Rightarrow> world" where
  "h5_modify p f w =
     (case files w p of None \<Rightarrow> w | Some h \<Rightarrow> w\<lparr>files := (files w)(p \<mapsto> f h)\<rparr>)"

definition append_rows :: "ndarray \<Rightarrow> ndarray \<Rightarrow> ndarray" where
  "append_rows d a =
     \<lparr>shape = (case (shape d, shape a) of
                 (m # rest, n # _) \<Rightarrow> (m + n) # rest
               | (s, _) \<Rightarrow> s),
      elems = elems d @ elems a\<rparr>"

definition write_data_slice :: "gid \<Rightarrow> ndarray \<Rightarrow> world \<Rightarrow> world" where
  "write_data_slice p a =
     h5_modify p (\<lambda>h. h\<lparr>h5_data :=
       Some (case h5_data h of None \<Rightarrow> a | Some d \<Rightarrow> append_rows d a)\<rparr>)"

definition write_time_slice :: "gid \<Rightarrow> real list \<Rightarrow> world \<Rightarrow> world" where
  "write_time_slice p ts =
     h5_modify p (\<lambda>h. h\<lparr>h5_time :=
       Some (case h5_time h of None \<Rightarrow> ts | Some old \<Rightarrow> old @ ts)\<rparr>)"

definition read_data_shape :: "gid \<Rightarrow> world \<Rightarrow> exn + nat list" where
  "read_data_shape p w =
     (case files w p of
        None \<Rightarrow> Inl IOError
      | Some h \<Rightarrow> (case h5_data h of None \<Rightarrow> Inl IOError | Some d \<Rightarrow> Inr (shape d)))"

text \<open>
  Modelled from the spec: \<open>prepare_array_shape_meta\<close> of \<open>tvb.core.neotraits.db\<close> is
  missing from the sources. The spec describes its result: four integers capturing up to
  four dimensions of the persisted shape, the shape padded or truncated to four slots,
  trailing entries unset for fewer than four dimensions.
\<close>

definition prepare_array_shape_meta :: "nat list \<Rightarrow> nat option \<times> nat option \<times> nat option \<times> nat option" where
  "prepare_array_shape_meta shp =
     (let slot = (\<lambda>k. if k < length shp then Some (shp ! k) else None)
      in (slot 0, slot 1, slot 2, slot 3))"

text \<open>
  What the call takes from its surroundings: the structured file reader (a black box that
  returns an array or raises), the state of a freshly constructed \<open>TimeSeriesRegion\<close> and
  \<open>TimeSeriesEEG\<close> (the defaults of \<open>tvb.datatypes.time_series\<close>, which is not among
  the sources), and the JSON serialiser applied to the two label fields.
\<close>

datatype json_arg =
    Ordering "string list"
  | Dimensions "(string \<times> string list) list"

record env =
  read_nested_mat_file :: "string \<Rightarrow> string \<Rightarrow> string \<Rightarrow> exn + ndarray"
  TimeSeriesRegion :: time_series
  TimeSeriesEEG :: time_series
  json_dumps :: "json_arg \<Rightarrow> string"

fun type_name :: "tstype \<Rightarrow> string" where
  "type_name TS_REGION = ''TimeSeriesRegion''"
| "type_name TS_EEG = ''TimeSeriesEEG''"

section \<open>The importer\<close>

record importer =
  tstype :: tstype

definition MatTimeSeriesImporter :: importer where
  "MatTimeSeriesImporter = \<lparr>tstype = TS_REGION\<rparr>"

type_synonym built = "(tstype \<times> time_series) \<times> ts_index \<times> gid"

definition create_region_ts ::
  "env \<Rightarrow> nat list \<Rightarrow> topology option \<Rightarrow> world \<Rightarrow> (exn + built) \<times> world" where
  "create_region_ts ev data_shape connectivity w =
     (case connectivity of
        Some (Connectivity cgid number_of_regions) \<Rightarrow>
          (case tuple_item data_shape 1 of
             Inl e \<Rightarrow> (Inl e, w)
           | Inr channels \<Rightarrow>
               if number_of_regions \<noteq> channels
               then (Inl (LaunchException (Message
                       (''Data has '' @ string_of_nat channels
                        @ '' channels but the connectivity has ''
                        @ string_of_nat number_of_regions @ '' nodes''))), w)
               else
                 let (g, w1) = fresh_gid w;
                     ts_idx = (new_index TS_REGION g)
                                \<lparr>connectivity_gid := Some cgid, has_surface_mapping := Some True\<rparr>;
                     w2 = h5_create g TS_REGION w1;
                     w3 = h5_modify g (\<lambda>h. h\<lparr>h5_connectivity := Some cgid\<rparr>) w2
                 in (Inr ((TS_REGION, TimeSeriesRegion ev), ts_idx, g), w3))
      | _ \<Rightarrow> (Inl AttributeError, w))"

definition create_eeg_ts ::
  "env \<Rightarrow> nat list \<Rightarrow> topology option \<Rightarrow> world \<Rightarrow> (exn + built) \<times> world" where
  "create_eeg_ts ev data_shape sensors w =
     (case sensors of
        Some (Sensors sgid number_of_sensors) \<Rightarrow>
          (case tuple_item data_shape 1 of
             Inl e \<Rightarrow> (Inl e, w)
           | Inr channels \<Rightarrow>
               if number_of_sensors \<noteq> channels
               then (Inl (LaunchException (Message
                       (''Data has '' @ string_of_nat channels
                        @ '' channels but the sensors have ''
                        @ string_of_nat number_of_sensors))), w)
               else
                 let (g, w1) = fresh_gid w;
                     ts_idx = (new_index TS_EEG g)\<lparr>sensors_gid := Some sgid\<rparr>;
                     w2 = h5_create g TS_EEG w1;
                     w3 = h5_modify g (\<lambda>h. h\<lparr>h5_sensors := Some sgid\<rparr>) w2
                 in (Inr ((TS_EEG, TimeSeriesEEG ev), ts_idx, g), w3))
      | _ \<Rightarrow> (Inl AttributeError, w))"

fun ts_builder ::
  "tstype \<Rightarrow> env \<Rightarrow> nat list \<Rightarrow> topology option \<Rightarrow> world \<Rightarrow> (exn + built) \<times> world" where
  "ts_builder TS_REGION = create_region_ts"
| "ts_builder TS_EEG = create_eeg_ts"

text \<open>\<open>if slice:\<close> holds for a string that is neither \<open>None\<close> nor empty.\<close>

fun truthy :: "string option \<Rightarrow> bool" where
  "truthy None = False"
| "truthy (Some s) = (s \<noteq> [])"

text \<open>The first statements of \<open>launch\<close>: read the array, transpose it, slice it.\<close>

definition load_data ::
  "env \<Rightarrow> string \<Rightarrow> string \<Rightarrow> string \<Rightarrow> bool \<Rightarrow> string option \<Rightarrow> exn + ndarray" where
  "load_data ev data_file dataset_name structure_path transpose' slice =
     (case read_nested_mat_file ev data_file dataset_name structure_path of
        Inl e \<Rightarrow> Inl e
      | Inr data0 \<Rightarrow>
          let data1 = (if transpose' then ndarray_T data0 else data0)
          in if truthy slice
             then (case parse_slice (the slice) of
                     Inl e \<Rightarrow> Inl e
                   | Inr ix \<Rightarrow> getitem data1 ix)
             else Inr data1)"

text \<open>The statements of \<open>launch\<close> after the builder has returned.\<close>

definition store_series ::
  "env \<Rightarrow> ndarray \<Rightarrow> real \<Rightarrow> built \<Rightarrow> world \<Rightarrow> (exn + ts_index) \<times> world" where
  "store_series ev data start_time b w1 =
     (case b of ((cls, ts0), ts_idx, ts_h5) \<Rightarrow>
        let ts = ts0\<lparr>ts_start_time := start_time, ts_sample_period_unit := ''s''\<rparr>
        in
        (case tuple_item (shape data) 0 of
           Inl e \<Rightarrow> (Inl e, w1)
         | Inr n \<Rightarrow>
             let w2 = write_time_slice ts_h5 (r_times n (ts_sample_period ts)) w1
             in
             (case getitem data [Slice None None None, NewAxis, Slice None None None, NewAxis] of
                Inl e \<Rightarrow> (Inl e, w2)
              | Inr canonical \<Rightarrow>
                  let w3 = write_data_slice ts_h5 canonical w2
                  in
                  (case read_data_shape ts_h5 w3 of
                     Inl e \<Rightarrow> (Inl e, w3)
                   | Inr data_shape \<Rightarrow>
                       let w4 = h5_modify ts_h5 (\<lambda>h. h
                                  \<lparr>h5_nr_dimensions := Some (length data_shape),
                                   h5_gid := Some (idx_gid ts_idx),
                                   h5_sample_period := Some (ts_sample_period ts),
                                   h5_sample_period_unit := Some (ts_sample_period_unit ts),
                                   h5_sample_rate := ts_sample_rate ts,
                                   h5_start_time := Some (ts_start_time ts),
                                   h5_labels_ordering := Some (ts_labels_ordering ts),
                                   h5_labels_dimensions := Some (ts_labels_dimensions ts),
                                   h5_title := Some (ts_title ts),
                                   h5_closed := True\<rparr>) w3;
                           (l1, l2, l3, l4) = prepare_array_shape_meta data_shape
                       in (Inr (ts_idx
                             \<lparr>idx_title := Some (ts_title ts),
                              time_series_type := Some (type_name cls),
                              idx_sample_period_unit := Some (ts_sample_period_unit ts),
                              idx_sample_period := Some (ts_sample_period ts),
                              idx_sample_rate := ts_sample_rate ts,
                              idx_labels_dimensions :=
                                Some (json_dumps ev (Dimensions (ts_labels_dimensions ts))),
                              idx_labels_ordering :=
                                Some (json_dumps ev (Ordering (ts_labels_ordering ts))),
                              data_ndim := Some (length data_shape),
                              data_length_1d := l1, data_length_2d := l2,
                              data_length_3d := l3, data_length_4d := l4\<rparr>), w4)))))"

text \<open>The body of the \<open>try\<close> block.\<close>

definition launch_try ::
  "importer \<Rightarrow> env \<Rightarrow> string \<Rightarrow> string \<Rightarrow> string \<Rightarrow> bool \<Rightarrow> string option \<Rightarrow> int \<Rightarrow> real
     \<Rightarrow> topology option \<Rightarrow> world \<Rightarrow> (exn + ts_index) \<times> world" where
  "launch_try self ev data_file dataset_name structure_path transpose' slice sampling_rate
     start_time tstype_parameters w =
     (case load_data ev data_file dataset_name structure_path transpose' slice of
        Inl e \<Rightarrow> (Inl e, w)
      | Inr data \<Rightarrow>
          (case ts_builder (tstype self) ev (shape data) tstype_parameters w of
             (Inl e, w1) \<Rightarrow> (Inl e, w1)
           | (Inr b, w1) \<Rightarrow> store_series ev data start_time b w1))"

text \<open>
  \<open>launch\<close>: the \<open>try\<close> block, and the handler that logs a \<open>ParseException\<close> and raises a
  \<open>LaunchException\<close> made from it. Any other exception passes through. The
  \<open>transactional\<close> decorator belongs to the database layer, which is not among the
  sources; the world returned here is the one the body leaves behind.
\<close>

definition launch ::
  "importer \<Rightarrow> env \<Rightarrow> string \<Rightarrow> string \<Rightarrow> string \<Rightarrow> bool \<Rightarrow> string option \<Rightarrow> int \<Rightarrow> real
     \<Rightarrow> topology option \<Rightarrow> world \<Rightarrow> (exn + ts_index) \<times> world" where
  "launch self ev data_file dataset_name structure_path transpose' slice sampling_rate
     start_time tstype_parameters w =
     (case launch_try self ev data_file dataset_name structure_path transpose' slice
             sampling_rate start_time tstype_parameters w of
        (Inl (ParseException m), w') \<Rightarrow>
          (Inl (LaunchException (Cause (ParseException m))),
           w'\<lparr>log := log w' @ [ParseException m]\<rparr>)
      | r \<Rightarrow> r)"

section \<open>Vocabulary of the statements\<close>

text \<open>
  The channel count and the identifier of a topology, and which topology a builder reads:
  \<open>create_region_ts\<close> reads \<open>number_of_regions\<close>, \<open>create_eeg_ts\<close> reads
  \<open>number_of_sensors\<close>. The remaining functions name what a builder returns and the
  message of the channel check, so that the lemmas below can state results in closed form.
\<close>

fun channel_count :: "topology \<Rightarrow> nat" where
  "channel_count (Connectivity g n) = n"
| "channel_count (Sensors g n) = n"

fun topology_gid :: "topology \<Rightarrow> gid" where
  "topology_gid (Connectivity g n) = g"
| "topology_gid (Sensors g n) = g"

fun fits :: "tstype \<Rightarrow> topology \<Rightarrow> bool" where
  "fits TS_REGION (Connectivity g n) = True"
| "fits TS_EEG (Sensors g n) = True"
| "fits _ _ = False"

fun fresh_ts :: "env \<Rightarrow> tstype \<Rightarrow> time_series" where
  "fresh_ts ev TS_REGION = TimeSeriesRegion ev"
| "fresh_ts ev TS_EEG = TimeSeriesEEG ev"

fun built_index :: "tstype \<Rightarrow> gid \<Rightarrow> gid \<Rightarrow> ts_index" where
  "built_index TS_REGION g r =
     (new_index TS_REGION g)\<lparr>connectivity_gid := Some r, has_surface_mapping := Some True\<rparr>"
| "built_index TS_EEG g r = (new_index TS_EEG g)\<lparr>sensors_gid := Some r\<rparr>"

fun built_file :: "tstype \<Rightarrow> gid \<Rightarrow> h5_file" where
  "built_file TS_REGION r = (new_h5 TS_REGION)\<lparr>h5_connectivity := Some r\<rparr>"
| "built_file TS_EEG r = (new_h5 TS_EEG)\<lparr>h5_sensors := Some r\<rparr>"

fun mismatch_message :: "tstype \<Rightarrow> nat \<Rightarrow> nat \<Rightarrow> string" where
  "mismatch_message TS_REGION observed expected =
     ''Data has '' @ string_of_nat observed @ '' channels but the connectivity has ''
       @ string_of_nat expected @ '' nodes''"
| "mismatch_message TS_EEG observed expected =
     ''Data has '' @ string_of_nat observed @ '' channels but the sensors have ''
       @ string_of_nat expected"

definition opened :: "tstype \<Rightarrow> topology \<Rightarrow> world \<Rightarrow> world" where
  "opened c tp w =
     w\<lparr>next_gid := Suc (next_gid w),
       files := (files w)(next_gid w \<mapsto> built_file c (topology_gid tp))\<rparr>"

section \<open>A concrete import\<close>

text \<open>
  A reader that knows two files, \<open>ts.mat\<close> with a 4 by 3 array under \<open>data\<close> and
  \<open>ts_T.mat\<close> with the same array stored as 3 by 4, and fails with a parse error on
  anything else; a time series whose defaults are a sample period of 1 in milliseconds and
  no sample rate.
\<close>

definition example_array :: ndarray where
  "example_array = \<lparr>shape = [4, 3], elems = [1, 2, 3, 4, 5, 6, 7, 8, 9, 10, 11, 12]\<rparr>"

definition example_array_T :: ndarray where
  "example_array_T = \<lparr>shape = [3, 4], elems = [1, 4, 7, 10, 2, 5, 8, 11, 3, 6, 9, 12]\<rparr>"

definition example_reader :: "string \<Rightarrow> string \<Rightarrow> string \<Rightarrow> exn + ndarray" where
  "example_reader data_file dataset_name structure_path =
     (if dataset_name = ''data'' \<and> structure_path = [] \<and> data_file = ''ts.mat''
      then Inr example_array
      else if dataset_name = ''data'' \<and> structure_path = [] \<and> data_file = ''ts_T.mat''
      then Inr example_array_T
      else Inl (ParseException ''Could not read dataset''))"

fun join :: "string \<Rightarrow> string list \<Rightarrow> string" where
  "join sep [] = []"
| "join sep [x] = x"
| "join sep (x # y # ys) = x @ sep @ join sep (y # ys)"

definition json_string :: "string \<Rightarrow> string" where
  "json_string s = CHR 0x22 # s @ [CHR 0x22]"

definition json_list :: "string list \<Rightarrow> string" where
  "json_list xs = ''['' @ join '', '' (map json_string xs) @ '']''"

fun example_json_dumps :: "json_arg \<Rightarrow> string" where
  "example_json_dumps (Ordering xs) = json_list xs"
| "example_json_dumps (Dimensions kvs) =
     ''{'' @ join '', '' (map (\<lambda>(k, v). json_string k @ '': '' @ json_list v) kvs) @ ''}''"

definition example_series :: "string \<Rightarrow> time_series" where
  "example_series space =
     \<lparr>ts_title = [], ts_start_time = 0, ts_sample_period = 1, ts_sample_period_unit = ''ms'',
      ts_sample_rate = None,
      ts_labels_ordering = [''Time'', ''State Variable'', space, ''Mode''],
      ts_labels_dimensions = []\<rparr>"

definition example_env :: env where
  "example_env =
     \<lparr>read_nested_mat_file = example_reader,
      TimeSeriesRegion = example_series ''Region'',
      TimeSeriesEEG = example_series ''EEG Sensor'',
      json_dumps = example_json_dumps\<rparr>"

definition example_world :: world where
  "example_world = \<lparr>files = Map.empty, log = [], next_gid = 0\<rparr>"

section \<open>Indexing lemmas\<close>

lemma slice_indices_full: "slice_indices None None None n = Inr [0..<n]"
proof -
  have "map (\<lambda>k. nat (int k)) [0..<n] = [0..<n]"
    by (rule map_idI) simp
  then show ?thesis
    by (cases "n = 0") (simp_all add: slice_indices_def Let_def)
qed

lemma select_axes_fill:
  "select_axes (replicate (length shp) (Slice None None None)) shp = Inr (map (\<lambda>n. Keep [0..<n]) shp)"
  by (induction shp) (simp_all add: slice_indices_full)

lemma select_axes_canonical:
  "select_axes ([Slice None None None, NewAxis, Slice None None None, NewAxis] @ replicate (length rest) (Slice None None None)) (T # C # rest)
    = Inr (Keep [0..<T] # Fresh # Keep [0..<C] # Fresh # map (\<lambda>n. Keep [0..<n]) rest)"
  by (simp add: slice_indices_full select_axes_fill)

lemma concat_map_selector_shape_Keep:
  "concat (map selector_shape (map (\<lambda>n. Keep [0..<n]) rest)) = rest"
  by (induction rest) simp_all

lemma concat_map_selector_source_Keep:
  "concat (map selector_source (map (\<lambda>n. Keep [0..<n]) rest)) = map (\<lambda>n. [0..<n]) rest"
  by (induction rest) simp_all

lemma expand_canonical:
  "expand_ellipsis [Slice None None None, NewAxis, Slice None None None, NewAxis] (Suc (Suc n))
   = Inr ([Slice None None None, NewAxis, Slice None None None, NewAxis] @ replicate n (Slice None None None))"
  by (simp add: expand_ellipsis_def)

lemma canonical_selectors_shape:
  "concat (map selector_shape (Keep [0..<T] # Fresh # Keep [0..<C] # Fresh # map (\<lambda>n. Keep [0..<n]) rest))
   = T # 1 # C # 1 # rest"
  by (simp only: list.map concat.simps selector_shape.simps concat_map_selector_shape_Keep) simp

lemma canonical_selectors_source:
  "concat (map selector_source (Keep [0..<T] # Fresh # Keep [0..<C] # Fresh # map (\<lambda>n. Keep [0..<n]) rest))
   = map (\<lambda>n. [0..<n]) (T # C # rest)"
  by (simp only: list.map concat.simps selector_source.simps concat_map_selector_source_Keep) simp

lemma getitem_canonical:
  assumes "shape a = T # C # rest"
  shows "getitem a [Slice None None None, NewAxis, Slice None None None, NewAxis]
         = Inr \<lparr>shape = T # 1 # C # 1 # rest,
                 elems = map (\<lambda>idx. elems a ! flat_index (shape a) idx) (all_indices (shape a))\<rparr>"
proof -
  have len: "length (shape a) = Suc (Suc (length rest))"
    using assms by simp
  have sel: "select_axes ([Slice None None None, NewAxis, Slice None None None, NewAxis]
                @ replicate (length rest) (Slice None None None)) (shape a)
             = Inr (Keep [0..<T] # Fresh # Keep [0..<C] # Fresh # map (\<lambda>n. Keep [0..<n]) rest)"
    unfolding assms by (rule select_axes_canonical)
  have src: "map (\<lambda>n. [0..<n]) (T # C # rest) = map (\<lambda>n. [0..<n]) (shape a)"
    unfolding assms ..
  show ?thesis
    by (simp only: getitem_def len expand_canonical sel sum.case canonical_selectors_shape
        canonical_selectors_source all_indices_def src)
qed

lemma getitem_canonical_fails:
  "length (shape a) < 2 \<Longrightarrow>
   getitem a [Slice None None None, NewAxis, Slice None None None, NewAxis] = Inl IndexError"
  by (simp add: getitem_def expand_ellipsis_def)

text \<open>Reading every position of a well-formed 2D array in row-major order gives its elements.\<close>

lemma map_nth_offset:
  "k + C \<le> length xs \<Longrightarrow> map (\<lambda>c. xs ! (k + c)) [0..<C] = take C (drop k xs)"
  by (rule nth_equalityI) simp_all

lemma rows_concat:
  "T * C \<le> length xs \<Longrightarrow>
   concat (map (\<lambda>t. map (\<lambda>c. xs ! (t * C + c)) [0..<C]) [0..<T]) = take (T * C) xs"
proof (induction T)
  case 0
  then show ?case by simp
next
  case (Suc T)
  then have le: "T * C + C \<le> length xs" by simp
  have "concat (map (\<lambda>t. map (\<lambda>c. xs ! (t * C + c)) [0..<C]) [0..<Suc T])
        = take (T * C) xs @ map (\<lambda>c. xs ! (T * C + c)) [0..<C]"
    using Suc.IH le by simp
  also have "\<dots> = take (T * C) xs @ take C (drop (T * C) xs)"
    by (simp only: map_nth_offset [OF le])
  also have "\<dots> = take (T * C + C) xs"
    by (simp only: take_add)
  finally show ?case by (simp add: add.commute)
qed

lemma all_indices_2d:
  "map (\<lambda>idx. xs ! flat_index [T, C] idx) (all_indices [T, C])
   = concat (map (\<lambda>t. map (\<lambda>c. xs ! (t * C + c)) [0..<C]) [0..<T])"
  by (simp add: all_indices_def flat_index_def map_concat comp_def)

lemma elems_2d_identity:
  assumes "wf_ndarray a" "shape a = [T, C]"
  shows "map (\<lambda>idx. elems a ! flat_index (shape a) idx) (all_indices (shape a)) = elems a"
  using assms by (simp add: all_indices_2d rows_concat wf_ndarray_def)

section \<open>The builders and the stores\<close>

lemma ts_builder_ok:
  assumes "fits c tp" and "tuple_item shp 1 = Inr (channel_count tp)"
  shows "ts_builder c ev shp (Some tp) w =
           (Inr ((c, fresh_ts ev c), built_index c (next_gid w) (topology_gid tp), next_gid w),
            w\<lparr>next_gid := Suc (next_gid w),
               files := (files w)(next_gid w \<mapsto> built_file c (topology_gid tp))\<rparr>)"
proof (cases c)
  case TS_REGION
  with assms obtain g n where "tp = Connectivity g n"
    by (cases tp) simp_all
  with assms TS_REGION show ?thesis
    by (simp add: create_region_ts_def fresh_gid_def h5_create_def h5_modify_def)
next
  case TS_EEG
  with assms obtain g n where "tp = Sensors g n"
    by (cases tp) simp_all
  with assms TS_EEG show ?thesis
    by (simp add: create_eeg_ts_def fresh_gid_def h5_create_def h5_modify_def)
qed

lemma ts_builder_mismatch:
  assumes "fits c tp" and "tuple_item shp 1 = Inr n" and "channel_count tp \<noteq> n"
  shows "ts_builder c ev shp (Some tp) w =
           (Inl (LaunchException (Message (mismatch_message c n (channel_count tp)))), w)"
proof (cases c)
  case TS_REGION
  with assms obtain g m where "tp = Connectivity g m"
    by (cases tp) simp_all
  with assms TS_REGION show ?thesis
    by (simp add: create_region_ts_def)
next
  case TS_EEG
  with assms obtain g m where "tp = Sensors g m"
    by (cases tp) simp_all
  with assms TS_EEG show ?thesis
    by (simp add: create_eeg_ts_def)
qed

lemma mismatch_message_mentions:
  "sublist (string_of_nat n) (mismatch_message c n m) \<and> sublist (string_of_nat m) (mismatch_message c n m)"
proof (cases c)
  case TS_REGION
  have "sublist (string_of_nat n) (''Data has '' @ string_of_nat n @ ('' channels but the connectivity has ''
       @ string_of_nat m @ '' nodes''))"
    by (rule sublist_appendI)
  moreover have "sublist (string_of_nat m) ((''Data has '' @ string_of_nat n @ '' channels but the connectivity has '')
       @ string_of_nat m @ '' nodes'')"
    by (rule sublist_appendI)
  ultimately show ?thesis using TS_REGION by simp
next
  case TS_EEG
  have "sublist (string_of_nat n) (''Data has '' @ string_of_nat n @ ('' channels but the sensors have ''
       @ string_of_nat m))"
    by (rule sublist_appendI)
  moreover have "sublist (string_of_nat m) ((''Data has '' @ string_of_nat n @ '' channels but the sensors have '')
       @ string_of_nat m @ [])"
    by (rule sublist_appendI)
  ultimately show ?thesis using TS_EEG by simp
qed

lemma ts_builder_Inr:
  assumes "ts_builder c ev shp tpo w = (Inr b, w1)"
  shows "\<exists>tp. tpo = Some tp \<and> fits c tp \<and> tuple_item shp 1 = Inr (channel_count tp)"
proof (cases c)
  case TS_REGION
  with assms show ?thesis
    by (auto simp: create_region_ts_def split: option.splits topology.splits sum.splits if_splits)
next
  case TS_EEG
  with assms show ?thesis
    by (auto simp: create_eeg_ts_def split: option.splits topology.splits sum.splits if_splits)
qed


lemma store_series_ok:
  assumes shp: "shape data = T # C # rest"
      and f: "files w1 g = Some h0"
      and d: "h5_data h0 = None"
      and t: "h5_time h0 = None"
  shows "store_series ev data st ((cls, ts0), ts_idx, g) w1
         = (Inr (ts_idx
                  \<lparr>idx_title := Some (ts_title ts0),
                   time_series_type := Some (type_name cls),
                   idx_sample_period_unit := Some ''s'',
                   idx_sample_period := Some (ts_sample_period ts0),
                   idx_sample_rate := ts_sample_rate ts0,
                   idx_labels_dimensions := Some (json_dumps ev (Dimensions (ts_labels_dimensions ts0))),
                   idx_labels_ordering := Some (json_dumps ev (Ordering (ts_labels_ordering ts0))),
                   data_ndim := Some (length (T # 1 # C # 1 # rest)),
                   data_length_1d := Some T, data_length_2d := Some 1,
                   data_length_3d := Some C, data_length_4d := Some 1\<rparr>),
            w1\<lparr>files := (files w1)(g \<mapsto> h0
                  \<lparr>h5_time := Some (r_times T (ts_sample_period ts0)),
                   h5_data := Some \<lparr>shape = T # 1 # C # 1 # rest,
                                     elems = map (\<lambda>idx. elems data ! flat_index (shape data) idx)
                                               (all_indices (shape data))\<rparr>,
                   h5_nr_dimensions := Some (length (T # 1 # C # 1 # rest)),
                   h5_gid := Some (idx_gid ts_idx),
                   h5_sample_period := Some (ts_sample_period ts0),
                   h5_sample_period_unit := Some ''s'',
                   h5_sample_rate := ts_sample_rate ts0,
                   h5_start_time := Some st,
                   h5_labels_ordering := Some (ts_labels_ordering ts0),
                   h5_labels_dimensions := Some (ts_labels_dimensions ts0),
                   h5_title := Some (ts_title ts0), h5_closed := True\<rparr>)\<rparr>)"
  using assms
  by (simp add: store_series_def tuple_item_def write_time_slice_def h5_modify_def getitem_canonical
     write_data_slice_def read_data_shape_def Let_def prepare_array_shape_meta_def)

section \<open>Runs of launch\<close>

lemma built_file_empty: "h5_data (built_file c r) = None \<and> h5_time (built_file c r) = None"
  by (cases c) (simp_all add: new_h5_def)

lemma tuple_item_1: "tuple_item shp (Suc 0) = Inr n \<longleftrightarrow> (\<exists>T rest. shp = T # n # rest)"
proof
  assume "tuple_item shp (Suc 0) = Inr n"
  then have "Suc 0 < length shp" and "shp ! Suc 0 = n"
    by (auto simp: tuple_item_def split: if_splits)
  then show "\<exists>T rest. shp = T # n # rest"
    by (cases shp; cases "tl shp") auto
next
  assume "\<exists>T rest. shp = T # n # rest"
  then show "tuple_item shp (Suc 0) = Inr n"
    by (auto simp: tuple_item_def)
qed

lemma launch_run:
  assumes ld: "load_data ev f d p tr sl = Inr data"
      and shp: "shape data = T # C # rest"
      and fit: "fits (tstype self) tp"
      and cnt: "channel_count tp = C"
  shows "launch self ev f d p tr sl r st (Some tp) w
         = store_series ev data st
             ((tstype self, fresh_ts ev (tstype self)),
              built_index (tstype self) (next_gid w) (topology_gid tp), next_gid w)
             (opened (tstype self) tp w)"
proof -
  have ti: "tuple_item (shape data) 1 = Inr (channel_count tp)"
    using shp cnt by (simp add: tuple_item_def)
  have files: "files (opened (tstype self) tp w) (next_gid w)
               = Some (built_file (tstype self) (topology_gid tp))"
    by (simp add: opened_def)
  have body: "launch_try self ev f d p tr sl r st (Some tp) w
         = store_series ev data st
             ((tstype self, fresh_ts ev (tstype self)),
              built_index (tstype self) (next_gid w) (topology_gid tp), next_gid w)
             (opened (tstype self) tp w)"
    by (simp add: launch_try_def ld ts_builder_ok [OF fit ti] opened_def)
  show ?thesis
    unfolding launch_def body
    by (simp add: store_series_ok [OF shp files] built_file_empty)
qed

lemma launch_Inr:
  assumes "launch self ev f d p tr sl r st tpo w = (Inr idx, w')"
  shows "\<exists>data tp T rest. load_data ev f d p tr sl = Inr data \<and> tpo = Some tp
           \<and> fits (tstype self) tp \<and> shape data = T # channel_count tp # rest"
proof -
  have body: "launch_try self ev f d p tr sl r st tpo w = (Inr idx, w')"
    using assms
    by (auto simp: launch_def split: prod.splits sum.splits exn.splits)
  then obtain data where ld: "load_data ev f d p tr sl = Inr data"
    by (auto simp: launch_try_def split: sum.splits)
  with body obtain b w1 where b: "ts_builder (tstype self) ev (shape data) tpo w = (Inr b, w1)"
    by (auto simp: launch_try_def split: sum.splits prod.splits)
  from ts_builder_Inr [OF b] ld show ?thesis
    by (auto simp: tuple_item_1)
qed







lemma launch_ok:
  assumes ld: "load_data ev f d p tr sl = Inr data"
      and shp: "shape data = T # C # rest"
      and fit: "fits (tstype self) tp"
      and cnt: "channel_count tp = C"
  shows "launch self ev f d p tr sl r st (Some tp) w
         = (Inr ((built_index (tstype self) (next_gid w) (topology_gid tp))
                  \<lparr>idx_title := Some (ts_title (fresh_ts ev (tstype self))),
                   time_series_type := Some (type_name (tstype self)),
                   idx_sample_period_unit := Some ''s'',
                   idx_sample_period := Some (ts_sample_period (fresh_ts ev (tstype self))),
                   idx_sample_rate := ts_sample_rate (fresh_ts ev (tstype self)),
                   idx_labels_dimensions := Some (json_dumps ev
                      (Dimensions (ts_labels_dimensions (fresh_ts ev (tstype self))))),
                   idx_labels_ordering := Some (json_dumps ev
                      (Ordering (ts_labels_ordering (fresh_ts ev (tstype self))))),
                   data_ndim := Some (length (T # 1 # C # 1 # rest)),
                   data_length_1d := Some T, data_length_2d := Some 1,
                   data_length_3d := Some C, data_length_4d := Some 1\<rparr>),
            (opened (tstype self) tp w)
              \<lparr>files := (files (opened (tstype self) tp w))(next_gid w \<mapsto>
                  (built_file (tstype self) (topology_gid tp))
                  \<lparr>h5_time := Some (r_times T (ts_sample_period (fresh_ts ev (tstype self)))),
                   h5_data := Some \<lparr>shape = T # 1 # C # 1 # rest,
                                     elems = map (\<lambda>idx. elems data ! flat_index (shape data) idx)
                                               (all_indices (shape data))\<rparr>,
                   h5_nr_dimensions := Some (length (T # 1 # C # 1 # rest)),
                   h5_gid := Some (next_gid w),
                   h5_sample_period := Some (ts_sample_period (fresh_ts ev (tstype self))),
                   h5_sample_period_unit := Some ''s'',
                   h5_sample_rate := ts_sample_rate (fresh_ts ev (tstype self)),
                   h5_start_time := Some st,
                   h5_labels_ordering := Some (ts_labels_ordering (fresh_ts ev (tstype self))),
                   h5_labels_dimensions := Some (ts_labels_dimensions (fresh_ts ev (tstype self))),
                   h5_title := Some (ts_title (fresh_ts ev (tstype self))),
                   h5_closed := True\<rparr>)\<rparr>)"
proof -
  let ?c = "tstype self"
  have files: "files (opened ?c tp w) (next_gid w) = Some (built_file ?c (topology_gid tp))"
    by (simp add: opened_def)
  have gid: "idx_gid (built_index ?c (next_gid w) (topology_gid tp)) = next_gid w"
    by (cases ?c) (simp_all add: new_index_def)
  have empty: "h5_data (built_file ?c (topology_gid tp)) = None"
              "h5_time (built_file ?c (topology_gid tp)) = None"
    by (simp_all add: built_file_empty)
  show ?thesis
    unfolding launch_run [OF ld shp fit cnt] store_series_ok [OF shp files empty] gid ..
qed

lemma built_index_gid: "idx_gid (built_index c g r) = g"
  by (cases c) (simp_all add: new_index_def)



lemma shape_ndarray_T: "shape (ndarray_T a) = rev (shape a)"
  by (simp add: ndarray_T_def)

section \<open>Slices\<close>

lemma parse_slice_rows:
  "parse_slice ''1:3,:'' = Inr [Slice (Some 1) (Some 3) None, Slice None None None]"
  by (simp add: parse_slice_def split_on_def parse_component_def parse_bound_def parse_int_def
        parse_nat_def is_digit_def)


lemma slice_indices_1_3: "slice_indices (Some 1) (Some 3) None 4 = Inr [1, 2]"
  by (simp add: slice_indices_def Let_def upt_rec)

lemma getitem_rows:
  assumes "shape a = [4, 3]"
  shows "getitem a [Slice (Some 1) (Some 3) None, Slice None None None]
         = Inr \<lparr>shape = [2, 3], elems = map (\<lambda>k. elems a ! k) [3, 4, 5, 6, 7, 8]\<rparr>"
  using assms
  by (simp add: getitem_def expand_ellipsis_def slice_indices_1_3 slice_indices_full
        flat_index_def upt_rec)

lemma ts_builder_reader:
  "ts_builder c (ev\<lparr>read_nested_mat_file := g\<rparr>) shp tpo w = ts_builder c ev shp tpo w"
  by (cases c)
     (simp_all add: create_region_ts_def create_eeg_ts_def Let_def
        split: option.splits topology.splits sum.splits prod.splits)

lemma store_series_reader:
  "store_series (ev\<lparr>read_nested_mat_file := g\<rparr>) data st b w = store_series ev data st b w"
  by (simp add: store_series_def Let_def split: prod.splits sum.splits)

lemma load_data_sliced:
  assumes "read_nested_mat_file ev f d p = Inr A" and "s \<noteq> []"
  shows "load_data ev f d p tr (Some s)
         = (case parse_slice s of
              Inl e \<Rightarrow> Inl e
            | Inr ix \<Rightarrow> getitem (if tr then ndarray_T A else A) ix)"
  using assms by (simp add: load_data_def)

lemma launch_try_reader:
  assumes "load_data ev2 f d p tr2 sl = load_data ev f d p tr sl"
      and "ev2 = ev\<lparr>read_nested_mat_file := g\<rparr>"
  shows "launch_try self ev2 f d p tr2 sl r st tpo w = launch_try self ev f d p tr sl r st tpo w"
proof (cases "load_data ev f d p tr sl")
  case (Inl e)
  with assms(1) show ?thesis by (simp add: launch_try_def)
next
  case (Inr data)
  obtain rb w1 where b: "ts_builder (tstype self) ev (shape data) tpo w = (rb, w1)"
    by (cases "ts_builder (tstype self) ev (shape data) tpo w")
  then have b2: "ts_builder (tstype self) ev2 (shape data) tpo w = (rb, w1)"
    by (simp add: assms(2) ts_builder_reader)
  show ?thesis
    using assms(1) Inr b b2
    by (cases rb) (simp_all add: launch_try_def assms(2) store_series_reader)
qed

lemma launch_transposed_first:
  assumes "read_nested_mat_file ev f d p = Inr A"
  shows "launch self ev f d p tr sl r st tpo w
         = launch self (ev\<lparr>read_nested_mat_file := (\<lambda>_ _ _. Inr (if tr then ndarray_T A else A))\<rparr>)
             f d p False sl r st tpo w"
proof -
  have "load_data (ev\<lparr>read_nested_mat_file := (\<lambda>_ _ _. Inr (if tr then ndarray_T A else A))\<rparr>)
          f d p False sl = load_data ev f d p tr sl"
    using assms by (simp add: load_data_def)
  from launch_try_reader [OF this refl] show ?thesis
    by (simp add: launch_def)
qed

lemma slice_rows_import:
  assumes rd: "read_nested_mat_file ev data_file dataset_name structure_path = Inr A"
      and shp: "shape A = (if tr then [3, 4] else [4, 3])"
  shows "\<exists>idx w' h d.
           launch MatTimeSeriesImporter ev data_file dataset_name structure_path tr
             (Some ''1:3,:'') r start_time (Some (Connectivity g 3)) w = (Inr idx, w')
         \<and> load_data ev data_file dataset_name structure_path tr (Some ''1:3,:'')
             = getitem (if tr then ndarray_T A else A)
                 [Slice (Some 1) (Some 3) None, Slice None None None]
         \<and> files w' (idx_gid idx) = Some h \<and> h5_data h = Some d
         \<and> shape d = [2, 1, 3, 1]
         \<and> elems d = map (\<lambda>k. elems (if tr then ndarray_T A else A) ! k) [3, 4, 5, 6, 7, 8]
         \<and> data_length_1d idx = Some 2"
proof -
  let ?B = "if tr then ndarray_T A else A"
  have shpB: "shape ?B = [4, 3]"
    using shp by (simp add: shape_ndarray_T)
  have ld: "load_data ev data_file dataset_name structure_path tr (Some ''1:3,:'')
            = getitem ?B [Slice (Some 1) (Some 3) None, Slice None None None]"
    using rd by (simp add: load_data_def parse_slice_rows)
  define es where "es = map (\<lambda>k. elems ?B ! k) [3, 4, 5, 6, 7, 8]"
  have g: "getitem ?B [Slice (Some 1) (Some 3) None, Slice None None None]
        = Inr \<lparr>shape = [2, 3], elems = es\<rparr>"
    unfolding es_def by (rule getitem_rows [OF shpB])
  have "wf_ndarray \<lparr>shape = [2, 3], elems = es\<rparr>"
    by (simp add: wf_ndarray_def es_def)
  then have same: "map (\<lambda>idx. elems \<lparr>shape = [2, 3], elems = es\<rparr>
                            ! flat_index (shape \<lparr>shape = [2, 3], elems = es\<rparr>) idx)
                     (all_indices (shape \<lparr>shape = [2, 3], elems = es\<rparr>)) = es"
    using elems_2d_identity [of "\<lparr>shape = [2, 3], elems = es\<rparr>" 2 3] by simp
  have ld': "load_data ev data_file dataset_name structure_path tr (Some ''1:3,:'')
             = Inr \<lparr>shape = [2, 3], elems = es\<rparr>"
    using ld g by simp
  have s2: "shape \<lparr>shape = [2, 3], elems = es\<rparr> = 2 # 3 # []"
    by simp
  have fit: "fits (tstype MatTimeSeriesImporter) (Connectivity g 3)"
    by (simp add: MatTimeSeriesImporter_def)
  have cnt: "channel_count (Connectivity g 3) = 3"
    by simp
  show ?thesis
    unfolding launch_ok [OF ld' s2 fit cnt] same
    using ld by (simp add: built_index_gid opened_def es_def)
qed

section \<open>The concrete import, evaluated\<close>

lemma example_load: "load_data example_env ''ts.mat'' ''data'' [] False None = Inr example_array"
  by (simp add: load_data_def example_env_def example_reader_def)

lemma example_shape: "shape example_array = 4 # 3 # []"
  by (simp add: example_array_def)

lemma example_fits: "fits (tstype MatTimeSeriesImporter) (Connectivity 7 3)"
  by (simp add: MatTimeSeriesImporter_def)

lemma example_count: "channel_count (Connectivity 7 3) = 3"
  by simp

lemmas example_launch = launch_ok [OF example_load example_shape example_fits example_count]

lemma example_succeeds:
  "\<exists>idx w'. launch MatTimeSeriesImporter example_env ''ts.mat'' ''data'' [] False None 100 0
            (Some (Connectivity 7 3)) example_world = (Inr idx, w')"
  unfolding example_launch by simp

lemma example_sample_period:
  "map_sum id idx_sample_period
     (fst (launch MatTimeSeriesImporter example_env ''ts.mat'' ''data'' [] False None 100 0
             (Some (Connectivity 7 3)) example_world)) = Inr (Some 1)"
  unfolding example_launch
  by (simp add: MatTimeSeriesImporter_def example_env_def example_series_def)

lemma example_transposed: "ndarray_T example_array_T = example_array"
  by (simp add: ndarray_T_def example_array_T_def example_array_def all_indices_def
        flat_index_def upt_rec)



section \<open>The claims\<close>

text \<open>
  C1. For every 2D array of shape \<open>(T, C)\<close> that \<open>launch\<close> has read, transposed and
  sliced, and whose channel count \<open>C\<close> is the channel count of the topology, the launch
  succeeds and persists an array of shape \<open>(T, 1, C, 1)\<close>: a singleton axis after the
  time axis and a trailing singleton axis, with the elements of the input in their order.
  The number of dimensions stored in the container and on the index record is 4, and the
  four length slots of the index record are \<open>prepare_array_shape_meta\<close> of exactly the
  persisted shape, that is \<open>T\<close>, 1, \<open>C\<close>, 1.
\<close>

theorem C1_round_trip_shape:
  assumes ld: "load_data ev data_file dataset_name structure_path tr sl = Inr data"
      and shp: "shape data = [T, C]"
      and fit: "fits (tstype self) tp"
      and cnt: "channel_count tp = C"
  shows "\<exists>idx w' h d.
           launch self ev data_file dataset_name structure_path tr sl sampling_rate start_time
             (Some tp) w = (Inr idx, w')
         \<and> files w' (idx_gid idx) = Some h \<and> h5_data h = Some d
         \<and> shape d = [T, 1, C, 1]
         \<and> (wf_ndarray data \<longrightarrow> elems d = elems data)
         \<and> h5_nr_dimensions h = Some 4
         \<and> data_ndim idx = Some 4
         \<and> (data_length_1d idx, data_length_2d idx, data_length_3d idx, data_length_4d idx)
             = prepare_array_shape_meta (shape d)
         \<and> prepare_array_shape_meta (shape d) = (Some T, Some 1, Some C, Some 1)"
proof -
  let ?c = "tstype self"
  have files: "files (opened ?c tp w) (next_gid w) = Some (built_file ?c (topology_gid tp))"
    by (simp add: opened_def)
  have gid: "idx_gid (built_index ?c (next_gid w) (topology_gid tp)) = next_gid w"
    by (cases ?c) (simp_all add: new_index_def)
  have run: "launch self ev data_file dataset_name structure_path tr sl sampling_rate start_time
               (Some tp) w
             = store_series ev data start_time
                 ((?c, fresh_ts ev ?c), built_index ?c (next_gid w) (topology_gid tp), next_gid w)
                 (opened ?c tp w)"
    by (rule launch_run [OF ld shp fit cnt])
  have elems: "wf_ndarray data \<longrightarrow>
      map (\<lambda>idx. elems data ! flat_index (shape data) idx) (all_indices (shape data)) = elems data"
    using elems_2d_identity [OF _ shp] by blast
  show ?thesis
    unfolding run
    using elems gid
    by (simp add: store_series_ok [OF shp files] built_file_empty prepare_array_shape_meta_def)
qed

theorem C1_round_trip_shape_witness:
  "\<exists>idx w' h.
      launch MatTimeSeriesImporter example_env ''ts.mat'' ''data'' [] False None 100 0
        (Some (Connectivity 7 3)) example_world = (Inr idx, w')
    \<and> files w' (idx_gid idx) = Some h
    \<and> h5_data h = Some \<lparr>shape = [4, 1, 3, 1], elems = [1, 2, 3, 4, 5, 6, 7, 8, 9, 10, 11, 12]\<rparr>
    \<and> data_ndim idx = Some 4
    \<and> (data_length_1d idx, data_length_2d idx, data_length_3d idx, data_length_4d idx)
        = (Some 4, Some 1, Some 3, Some 1)"
proof -
  have ld: "load_data example_env ''ts.mat'' ''data'' [] False None = Inr example_array"
    by (simp add: load_data_def example_env_def example_reader_def)
  have shp: "shape example_array = [4, 3]"
    by (simp add: example_array_def)
  have fit: "fits (tstype MatTimeSeriesImporter) (Connectivity 7 3)"
    by (simp add: MatTimeSeriesImporter_def)
  have cnt: "channel_count (Connectivity 7 3) = 3"
    by simp
  have wf: "wf_ndarray example_array"
    by (simp add: wf_ndarray_def example_array_def)
  from C1_round_trip_shape [OF ld shp fit cnt, of 100 0 example_world] wf
  show ?thesis
    by (auto simp: example_array_def)
qed

text \<open>
  C2. The claim: for every successful import with sampling rate \<open>r\<close> the sample period
  stored on the container and on the index record is \<open>1/r\<close> seconds, and the unit is
  seconds. Evaluated on the code at \<open>sampling_rate = 100\<close>: the unit is \<open>s\<close>, but the
  sample period is that of the freshly constructed time series (1 here), not 0.01, because
  no statement of \<open>launch\<close> reads \<open>sampling_rate\<close>.
\<close>

theorem C2_sample_period_at_rate_100:
  "map_sum id idx_sample_period
     (fst (launch MatTimeSeriesImporter example_env ''ts.mat'' ''data'' [] False None 100 0
             (Some (Connectivity 7 3)) example_world)) = Inr (Some 1)
   \<and> map_sum id idx_sample_period_unit
     (fst (launch MatTimeSeriesImporter example_env ''ts.mat'' ''data'' [] False None 100 0
             (Some (Connectivity 7 3)) example_world)) = Inr (Some ''s'')"
  unfolding example_launch
  by (simp add: MatTimeSeriesImporter_def example_env_def example_series_def)

text \<open>
  C3. When the array that \<open>launch\<close> has read, transposed and sliced has an axis 1 whose
  length differs from the channel count of the topology, \<open>launch\<close> raises a
  \<open>LaunchException\<close> whose message contains the observed and the expected channel count
  in decimal, for the region builder and for the EEG builder alike. The world is returned
  unchanged: no identifier was drawn, no container was opened, nothing was logged.
\<close>

theorem C3_channel_mismatch:
  assumes ld: "load_data ev data_file dataset_name structure_path tr sl = Inr data"
      and ax: "tuple_item (shape data) 1 = Inr c"
      and fit: "fits (tstype self) tp"
      and ne: "channel_count tp \<noteq> c"
  shows "launch self ev data_file dataset_name structure_path tr sl r start_time (Some tp) w
           = (Inl (LaunchException (Message (mismatch_message (tstype self) c (channel_count tp)))), w)
       \<and> sublist (string_of_nat c) (mismatch_message (tstype self) c (channel_count tp))
       \<and> sublist (string_of_nat (channel_count tp))
            (mismatch_message (tstype self) c (channel_count tp))"
  using ld ts_builder_mismatch [OF fit ax ne] mismatch_message_mentions
  by (simp add: launch_def launch_try_def)

theorem C3_channel_mismatch_witness:
  "launch MatTimeSeriesImporter example_env ''ts.mat'' ''data'' [] False None 100 0
     (Some (Connectivity 7 5)) example_world
   = (Inl (LaunchException (Message ''Data has 3 channels but the connectivity has 5 nodes'')),
      example_world)
   \<and> sublist ''3'' ''Data has 3 channels but the connectivity has 5 nodes''
   \<and> sublist ''5'' ''Data has 3 channels but the connectivity has 5 nodes''"
proof -
  have ax: "tuple_item (shape example_array) 1 = Inr 3"
    by (simp add: tuple_item_def example_array_def)
  have fit: "fits (tstype MatTimeSeriesImporter) (Connectivity 7 5)"
    by (simp add: MatTimeSeriesImporter_def)
  have ne: "channel_count (Connectivity 7 5) \<noteq> 3"
    by simp
  have three: "string_of_nat 3 = ''3''" and five: "string_of_nat 5 = ''5''"
    by code_simp+
  have msg: "mismatch_message (tstype MatTimeSeriesImporter) 3 (channel_count (Connectivity 7 5))
             = ''Data has 3 channels but the connectivity has 5 nodes''"
    by (simp add: MatTimeSeriesImporter_def three five)
  from C3_channel_mismatch [OF example_load ax fit ne, of 100 0 example_world]
  show ?thesis
    unfolding msg by (simp add: three five)
qed




text \<open>
  C5. Importing a file that holds an array \<open>A\<close> with \<open>transpose = True\<close> returns the
  same index record and leaves the same world as importing a file that holds \<open>A.T\<close> with
  \<open>transpose = False\<close>, all other arguments equal. The witness reads a 3 by 4 array and
  its 4 by 3 transpose, both written out element by element.
\<close>

theorem C5_transpose:
  assumes "read_nested_mat_file ev file1 dataset1 path1 = Inr A"
      and "read_nested_mat_file ev file2 dataset2 path2 = Inr (ndarray_T A)"
  shows "launch self ev file1 dataset1 path1 True sl r start_time tstype_parameters w
       = launch self ev file2 dataset2 path2 False sl r start_time tstype_parameters w"
  using assms by (simp add: launch_def launch_try_def load_data_def)

theorem C5_transpose_witness:
  "launch MatTimeSeriesImporter example_env ''ts_T.mat'' ''data'' [] True None 100 0
     (Some (Connectivity 7 3)) example_world
   = launch MatTimeSeriesImporter example_env ''ts.mat'' ''data'' [] False None 100 0
     (Some (Connectivity 7 3)) example_world
   \<and> read_nested_mat_file example_env ''ts_T.mat'' ''data'' []
       = Inr \<lparr>shape = [3, 4], elems = [1, 4, 7, 10, 2, 5, 8, 11, 3, 6, 9, 12]\<rparr>
   \<and> read_nested_mat_file example_env ''ts.mat'' ''data'' []
       = Inr \<lparr>shape = [4, 3], elems = [1, 2, 3, 4, 5, 6, 7, 8, 9, 10, 11, 12]\<rparr>"
proof -
  have r1: "read_nested_mat_file example_env ''ts_T.mat'' ''data'' [] = Inr example_array_T"
    by (simp add: example_env_def example_reader_def)
  have r2: "read_nested_mat_file example_env ''ts.mat'' ''data'' [] = Inr (ndarray_T example_array_T)"
    by (simp add: example_env_def example_reader_def example_transposed)
  have a: "read_nested_mat_file example_env ''ts_T.mat'' ''data'' []
       = Inr \<lparr>shape = [3, 4], elems = [1, 4, 7, 10, 2, 5, 8, 11, 3, 6, 9, 12]\<rparr>"
    using r1 by (simp add: example_array_T_def)
  have b: "read_nested_mat_file example_env ''ts.mat'' ''data'' []
       = Inr \<lparr>shape = [4, 3], elems = [1, 2, 3, 4, 5, 6, 7, 8, 9, 10, 11, 12]\<rparr>"
    by (simp add: example_env_def example_reader_def example_array_def)
  from C5_transpose [OF r1 r2] a b show ?thesis
    by blast
qed

text \<open>
  C6. The slice is applied to the array after the transpose, whatever the slice and the
  array: the array that \<open>launch\<close> goes on with is the parsed slice applied to \<open>A.T\<close>
  when \<open>transpose\<close> is set and to \<open>A\<close> otherwise, and a launch with the transpose
  flag and a slice equals the launch without the flag, with the same slice, on a file that
  already holds the (time, channel) array. For an input of shape \<open>(4, 3)\<close> with
  \<open>transpose = False\<close>, and for an input of shape \<open>(3, 4)\<close> with
  \<open>transpose = True\<close>, the slice \<open>1:3,:\<close> selects rows 1 and 2 of the (time, channel)
  array: the persisted array has shape \<open>(2, 1, 3, 1)\<close> and the time length on the index
  record is 2.
\<close>

theorem C6_slice_after_transpose:
  assumes rd: "read_nested_mat_file ev data_file dataset_name structure_path = Inr A"
      and s: "s \<noteq> []"
  shows "load_data ev data_file dataset_name structure_path tr (Some s)
           = (case parse_slice s of
                Inl e \<Rightarrow> Inl e
              | Inr ix \<Rightarrow> getitem (if tr then ndarray_T A else A) ix)
       \<and> launch self ev data_file dataset_name structure_path tr (Some s) r start_time
             tstype_parameters w
           = launch self
               (ev\<lparr>read_nested_mat_file := (\<lambda>_ _ _. Inr (if tr then ndarray_T A else A))\<rparr>)
               data_file dataset_name structure_path False (Some s) r start_time
               tstype_parameters w
       \<and> (s = ''1:3,:'' \<and> shape A = (if tr then [3, 4] else [4, 3]) \<longrightarrow>
            (\<exists>idx w' h d.
               launch MatTimeSeriesImporter ev data_file dataset_name structure_path tr
                 (Some s) r start_time (Some (Connectivity g 3)) w = (Inr idx, w')
             \<and> load_data ev data_file dataset_name structure_path tr (Some s)
                 = getitem (if tr then ndarray_T A else A)
                     [Slice (Some 1) (Some 3) None, Slice None None None]
             \<and> files w' (idx_gid idx) = Some h \<and> h5_data h = Some d
             \<and> shape d = [2, 1, 3, 1]
             \<and> elems d = map (\<lambda>k. elems (if tr then ndarray_T A else A) ! k) [3, 4, 5, 6, 7, 8]
             \<and> data_length_1d idx = Some 2))"
proof (intro conjI impI)
  show "load_data ev data_file dataset_name structure_path tr (Some s)
           = (case parse_slice s of
                Inl e \<Rightarrow> Inl e
              | Inr ix \<Rightarrow> getitem (if tr then ndarray_T A else A) ix)"
    by (rule load_data_sliced [OF rd s])
next
  show "launch self ev data_file dataset_name structure_path tr (Some s) r start_time
             tstype_parameters w
           = launch self
               (ev\<lparr>read_nested_mat_file := (\<lambda>_ _ _. Inr (if tr then ndarray_T A else A))\<rparr>)
               data_file dataset_name structure_path False (Some s) r start_time
               tstype_parameters w"
    by (rule launch_transposed_first [OF rd])
next
  assume "s = ''1:3,:'' \<and> shape A = (if tr then [3, 4] else [4, 3])"
  then have s': "s = ''1:3,:''" and shp: "shape A = (if tr then [3, 4] else [4, 3])"
    by simp_all
  show "\<exists>idx w' h d.
               launch MatTimeSeriesImporter ev data_file dataset_name structure_path tr
                 (Some s) r start_time (Some (Connectivity g 3)) w = (Inr idx, w')
             \<and> load_data ev data_file dataset_name structure_path tr (Some s)
                 = getitem (if tr then ndarray_T A else A)
                     [Slice (Some 1) (Some 3) None, Slice None None None]
             \<and> files w' (idx_gid idx) = Some h \<and> h5_data h = Some d
             \<and> shape d = [2, 1, 3, 1]
             \<and> elems d = map (\<lambda>k. elems (if tr then ndarray_T A else A) ! k) [3, 4, 5, 6, 7, 8]
             \<and> data_length_1d idx = Some 2"
    unfolding s' by (rule slice_rows_import [OF rd shp])
qed

theorem C6_slice_after_transpose_witness:
  "load_data example_env ''ts.mat'' ''data'' [] False (Some ''1:3,:'')
     = Inr \<lparr>shape = [2, 3], elems = [4, 5, 6, 7, 8, 9]\<rparr>
 \<and> load_data example_env ''ts_T.mat'' ''data'' [] True (Some ''1:3,:'')
     = Inr \<lparr>shape = [2, 3], elems = [4, 5, 6, 7, 8, 9]\<rparr>
 \<and> launch MatTimeSeriesImporter example_env ''ts_T.mat'' ''data'' [] True (Some ''1:3,:'')
        100 0 (Some (Connectivity 7 3)) example_world
     = launch MatTimeSeriesImporter
        (example_env\<lparr>read_nested_mat_file := (\<lambda>_ _ _. Inr example_array)\<rparr>)
        ''ts_T.mat'' ''data'' [] False (Some ''1:3,:'') 100 0 (Some (Connectivity 7 3))
        example_world
 \<and> (\<exists>idx w' h.
      launch MatTimeSeriesImporter example_env ''ts.mat'' ''data'' [] False (Some ''1:3,:'')
        100 0 (Some (Connectivity 7 3)) example_world = (Inr idx, w')
    \<and> files w' (idx_gid idx) = Some h
    \<and> h5_data h = Some \<lparr>shape = [2, 1, 3, 1], elems = [4, 5, 6, 7, 8, 9]\<rparr>
    \<and> data_length_1d idx = Some 2)
 \<and> (\<exists>idx w' h.
      launch MatTimeSeriesImporter example_env ''ts_T.mat'' ''data'' [] True (Some ''1:3,:'')
        100 0 (Some (Connectivity 7 3)) example_world = (Inr idx, w')
    \<and> files w' (idx_gid idx) = Some h
    \<and> h5_data h = Some \<lparr>shape = [2, 1, 3, 1], elems = [4, 5, 6, 7, 8, 9]\<rparr>
    \<and> data_length_1d idx = Some 2)"
proof -
  have r1: "read_nested_mat_file example_env ''ts.mat'' ''data'' [] = Inr example_array"
    by (simp add: example_env_def example_reader_def)
  have s1: "shape example_array = (if False then [3, 4] else [4, 3])"
    by (simp add: example_array_def)
  have r2: "read_nested_mat_file example_env ''ts_T.mat'' ''data'' [] = Inr example_array_T"
    by (simp add: example_env_def example_reader_def)
  have s2: "shape example_array_T = (if True then [3, 4] else [4, 3])"
    by (simp add: example_array_T_def)
  have ne: "''1:3,:'' \<noteq> []"
    by simp
  have rows: "getitem example_array [Slice (Some 1) (Some 3) None, Slice None None None]
              = Inr \<lparr>shape = [2, 3], elems = [4, 5, 6, 7, 8, 9]\<rparr>"
    using getitem_rows [of example_array] by (simp add: example_array_def)
  have e1: "map (\<lambda>k. elems example_array ! k) [3, 4, 5, 6, 7, 8] = [4, 5, 6, 7, 8, 9]"
    by (simp add: example_array_def)
  note t1 = C6_slice_after_transpose [OF r1 ne, of False MatTimeSeriesImporter 100 0
      "Some (Connectivity 7 3)" example_world 7]
  note t2 = C6_slice_after_transpose [OF r2 ne, of True MatTimeSeriesImporter 100 0
      "Some (Connectivity 7 3)" example_world 7]
  from t1 have l1: "load_data example_env ''ts.mat'' ''data'' [] False (Some ''1:3,:'')
     = Inr \<lparr>shape = [2, 3], elems = [4, 5, 6, 7, 8, 9]\<rparr>"
    by (simp add: parse_slice_rows rows)
  from t2 have l2: "load_data example_env ''ts_T.mat'' ''data'' [] True (Some ''1:3,:'')
     = Inr \<lparr>shape = [2, 3], elems = [4, 5, 6, 7, 8, 9]\<rparr>"
    by (simp add: parse_slice_rows example_transposed rows)
  from t2 have q: "launch MatTimeSeriesImporter example_env ''ts_T.mat'' ''data'' [] True
        (Some ''1:3,:'') 100 0 (Some (Connectivity 7 3)) example_world
     = launch MatTimeSeriesImporter
        (example_env\<lparr>read_nested_mat_file := (\<lambda>_ _ _. Inr example_array)\<rparr>)
        ''ts_T.mat'' ''data'' [] False (Some ''1:3,:'') 100 0 (Some (Connectivity 7 3))
        example_world"
    by (simp add: example_transposed)
  from t1 s1 obtain idx w' h d where a:
    "launch MatTimeSeriesImporter example_env ''ts.mat'' ''data'' [] False (Some ''1:3,:'')
        100 0 (Some (Connectivity 7 3)) example_world = (Inr idx, w')"
    "files w' (idx_gid idx) = Some h" "h5_data h = Some d" "shape d = [2, 1, 3, 1]"
    "elems d = [4, 5, 6, 7, 8, 9]" "data_length_1d idx = Some 2"
    unfolding if_False e1 by blast
  from t2 s2 obtain idx2 w2 h2 d2 where b:
    "launch MatTimeSeriesImporter example_env ''ts_T.mat'' ''data'' [] True (Some ''1:3,:'')
        100 0 (Some (Connectivity 7 3)) example_world = (Inr idx2, w2)"
    "files w2 (idx_gid idx2) = Some h2" "h5_data h2 = Some d2" "shape d2 = [2, 1, 3, 1]"
    "elems d2 = [4, 5, 6, 7, 8, 9]" "data_length_1d idx2 = Some 2"
    unfolding if_True example_transposed e1 by blast
  have "d = \<lparr>shape = [2, 1, 3, 1], elems = [4, 5, 6, 7, 8, 9]\<rparr>"
       "d2 = \<lparr>shape = [2, 1, 3, 1], elems = [4, 5, 6, 7, 8, 9]\<rparr>"
    using a(4,5) b(4,5) by simp_all
  with a b l1 l2 q show ?thesis
    by blast
qed

text \<open>
  C7. After every successful launch the time axis in the container has as many entries as
  the imported array and the persisted data have along axis 0, and entry \<open>i\<close> is
  \<open>i\<close> times the sample period stored in the container and on the index record.
\<close>

theorem C7_time_axis:
  assumes "launch self ev data_file dataset_name structure_path tr sl r start_time
             tstype_parameters w = (Inr idx, w')"
  shows "\<exists>data T rest h d ts sp.
           load_data ev data_file dataset_name structure_path tr sl = Inr data
         \<and> shape data = T # rest
         \<and> files w' (idx_gid idx) = Some h
         \<and> h5_data h = Some d \<and> hd (shape d) = T
         \<and> h5_sample_period h = Some sp \<and> idx_sample_period idx = Some sp
         \<and> h5_time h = Some ts
         \<and> length ts = T
         \<and> (\<forall>i<T. ts ! i = real i * sp)"
proof -
  from launch_Inr [OF assms] obtain data tp T rest where
    ld: "load_data ev data_file dataset_name structure_path tr sl = Inr data"
    and tp: "tstype_parameters = Some tp"
    and fit: "fits (tstype self) tp"
    and shp: "shape data = T # channel_count tp # rest"
    by blast
  from assms have
    "files w' (idx_gid idx) \<noteq> None \<and>
     (\<forall>h. files w' (idx_gid idx) = Some h \<longrightarrow>
        (\<exists>d. h5_data h = Some d \<and> hd (shape d) = T)
      \<and> h5_sample_period h = idx_sample_period idx \<and> idx_sample_period idx \<noteq> None
      \<and> (\<forall>sp. idx_sample_period idx = Some sp \<longrightarrow> h5_time h = Some (r_times T sp)))"
    unfolding tp launch_ok [OF ld shp fit refl]
    by (auto simp: built_index_gid opened_def)
  then show ?thesis
    using ld shp by (fastforce simp: r_times_def)
qed

theorem C7_time_axis_witness:
  "\<exists>idx w' h.
      launch MatTimeSeriesImporter example_env ''ts.mat'' ''data'' [] False None 100 0
        (Some (Connectivity 7 3)) example_world = (Inr idx, w')
    \<and> files w' (idx_gid idx) = Some h
    \<and> h5_sample_period h = Some 1
    \<and> h5_time h = Some [0, 1, 2, 3]"
proof -
  from example_succeeds obtain idx w' where
    run: "launch MatTimeSeriesImporter example_env ''ts.mat'' ''data'' [] False None 100 0
            (Some (Connectivity 7 3)) example_world = (Inr idx, w')"
    by blast
  from C7_time_axis [OF run] obtain data T rest h d ts sp where
    f: "load_data example_env ''ts.mat'' ''data'' [] False None = Inr data"
       "shape data = T # rest"
       "files w' (idx_gid idx) = Some h" "h5_data h = Some d"
       "h5_sample_period h = Some sp" "idx_sample_period idx = Some sp"
       "h5_time h = Some ts" "length ts = T" "\<forall>i<T. ts ! i = real i * sp"
    by blast
  from f(1,2) have T: "T = 4"
    by (auto simp: example_load example_array_def)
  from example_sample_period f(6) have sp: "sp = 1"
    by (simp add: run)
  have len: "length ts = 4" using f(8) T by simp
  have "ts ! 0 = 0" "ts ! 1 = 1" "ts ! 2 = 2" "ts ! 3 = 3"
    using f(9) unfolding T sp by simp_all
  with len have "ts = [0, 1, 2, 3]"
    by (cases ts; cases "tl ts"; cases "tl (tl ts)"; cases "tl (tl (tl ts))") (simp_all add: nth_Cons')
  with run f(3,5,7) sp show ?thesis
    by blast
qed

text \<open>
  C8. When the structured file reader raises a \<open>ParseException\<close>, \<open>launch\<close> raises a
  \<open>LaunchException\<close> made from that exception, the log gains exactly that one entry, and
  the containers and the identifier supply are as before the call.
\<close>

theorem C8_parse_failure:
  assumes "read_nested_mat_file ev data_file dataset_name structure_path = Inl (ParseException m)"
  shows "launch self ev data_file dataset_name structure_path tr sl r start_time tstype_parameters w
         = (Inl (LaunchException (Cause (ParseException m))), w\<lparr>log := log w @ [ParseException m]\<rparr>)"
  using assms by (simp add: launch_def launch_try_def load_data_def)

theorem C8_parse_failure_witness:
  "launch MatTimeSeriesImporter example_env ''ts.mat'' ''unknown'' [] False None 100 0
     (Some (Connectivity 7 3)) example_world
   = (Inl (LaunchException (Cause (ParseException ''Could not read dataset''))),
      \<lparr>files = Map.empty, log = [ParseException ''Could not read dataset''], next_gid = 0\<rparr>)"
proof -
  have "read_nested_mat_file example_env ''ts.mat'' ''unknown'' []
        = Inl (ParseException ''Could not read dataset'')"
    by (simp add: example_env_def example_reader_def)
  from C8_parse_failure [OF this] show ?thesis
    by (simp add: example_world_def)
qed

text \<open>
  C9. Two calls of \<open>launch\<close> that differ only in \<open>sampling_rate\<close> return the same
  index record and leave the same world: the argument is never read.
\<close>

theorem C9_sampling_rate_unread:
  "launch self ev data_file dataset_name structure_path tr sl r1 start_time tstype_parameters w
   = launch self ev data_file dataset_name structure_path tr sl r2 start_time tstype_parameters w"
  by (simp add: launch_def launch_try_def)

text \<open>
  C10. The importer's \<open>tstype\<close> is the region tag, so its builder is
  \<open>create_region_ts\<close>; every successful launch returns a region index record whose
  \<open>connectivity_gid\<close> is the identifier of the connectivity passed in and whose
  \<open>has_surface_mapping\<close> is \<open>True\<close>.
\<close>

theorem C10_region_index:
  assumes "launch MatTimeSeriesImporter ev data_file dataset_name structure_path tr sl r
             start_time tstype_parameters w = (Inr idx, w')"
  shows "ts_builder (tstype MatTimeSeriesImporter) = create_region_ts
       \<and> idx_class idx = TS_REGION
       \<and> time_series_type idx = Some ''TimeSeriesRegion''
       \<and> has_surface_mapping idx = Some True
       \<and> (\<exists>g n. tstype_parameters = Some (Connectivity g n) \<and> connectivity_gid idx = Some g)"
proof -
  from launch_Inr [OF assms] obtain data tp T rest where
    ld: "load_data ev data_file dataset_name structure_path tr sl = Inr data"
    and tp: "tstype_parameters = Some tp"
    and fit: "fits (tstype MatTimeSeriesImporter) tp"
    and shp: "shape data = T # channel_count tp # rest"
    by blast
  from fit obtain g n where c: "tp = Connectivity g n"
    by (cases tp) (simp_all add: MatTimeSeriesImporter_def)
  from assms show ?thesis
    unfolding tp launch_ok [OF ld shp fit refl]
    by (auto simp: c MatTimeSeriesImporter_def new_index_def)
qed

theorem C10_region_index_witness:
  "\<exists>idx w'. launch MatTimeSeriesImporter example_env ''ts.mat'' ''data'' [] False None 100 0
                (Some (Connectivity 7 3)) example_world = (Inr idx, w')
     \<and> idx_class idx = TS_REGION \<and> has_surface_mapping idx = Some True
     \<and> connectivity_gid idx = Some 7"
proof -
  from example_succeeds obtain idx w' where
    run: "launch MatTimeSeriesImporter example_env ''ts.mat'' ''data'' [] False None 100 0
            (Some (Connectivity 7 3)) example_world = (Inr idx, w')"
    by blast
  from C10_region_index [OF run] run show ?thesis
    by auto
qed

end
